theory Spec2Isabelle
  imports Main "HOL-Library.Sublist"
begin

section \<open>Go Log: the message pipeline of \<open>Initialize.go\<close>\<close>

text \<open>
  The package keeps one open file per \<open>LogInstance\<close> and writes every message to that
  file, to standard output, or to both. The embedding below follows \<open>Initialize.go\<close>
  statement by statement. What the Go runtime and standard library contribute is made
  explicit: the clock read by \<open>time.Now\<close>, the text produced by \<open>fmt.Fprint\<close>,
  \<open>fmt.Print\<close>, \<open>fmt.Println\<close>, \<open>strconv.Itoa\<close> and \<open>Time.Format\<close>, the order in
  which \<open>range\<close> visits a map, the result of \<open>os.Create\<close>, and \<open>os.Exit\<close>.
\<close>

subsection \<open>Values, constants and the world\<close>

text \<open>
  An \<open>interface{}\<close> value, restricted to the kinds of value a log message is built from:
  strings, integers, booleans and the nil interface.
\<close>

datatype iface = VString string | VInt int | VBool bool | VNil

text \<open>A \<open>*os.File\<close> is the number of an open file.\<close>

type_synonym osfile = nat

record LogInstance =
  logDestination :: osfile

text \<open>
  The civil time that \<open>time.Now\<close> returns: the results of \<open>Year\<close>, \<open>Month\<close>, \<open>Day\<close>,
  \<open>Hour\<close>, \<open>Minute\<close>, \<open>Second\<close> and \<open>Nanosecond\<close>. The last one is in the range
  from 0 to 999999999 by the contract of package \<open>time\<close>, hence a natural number.
\<close>

record gotime =
  year :: int
  month :: nat
  day :: nat
  hour :: nat
  minute :: nat
  second :: nat
  nsec :: nat

text \<open>
  The part of the machine the package acts on: the bytes written so far to every open
  file, the bytes written so far to standard output, and the clock. \<open>clock w n\<close> is what
  the call number \<open>n\<close> of \<open>time.Now\<close> returns; \<open>nowCalls\<close> counts the calls made.
\<close>

record world =
  files :: "osfile \<Rightarrow> string"
  stdout :: string
  clock :: "nat \<Rightarrow> gotime"
  nowCalls :: nat

text \<open>
  How a call ends: it returns to its caller, it ends the process through \<open>os.Exit\<close> with
  a status, or it panics on a nil \<open>*LogInstance\<close>.
\<close>

datatype outcome = Returns world | Exits int world | Panics

definition ESC :: char where
  "ESC = CHR 0x1B"

definition newline :: char where
  "newline = CHR 0x0A"

definition ColorDefault :: string where
  "ColorDefault = ESC # ''[0;0m''"

definition ColorRed :: string where
  "ColorRed = ESC # ''[31;1m''"

definition ColorYellow :: string where
  "ColorYellow = ESC # ''[33;1m''"

definition MessageNormal :: string where
  "MessageNormal = '' [ INFO ] ''"

definition MessageFatal :: string where
  "MessageFatal = '' [ ERRO ] ''"

definition MessageWarning :: string where
  "MessageWarning = '' [ WARN ] ''"

subsection \<open>Standard library: decimal numbers and the time layout\<close>

text \<open>The decimal digits of a natural number, most significant first.\<close>

fun digits :: "nat \<Rightarrow> string" where
  "digits n =
     (if n < 10 then [''0123456789'' ! n]
      else digits (n div 10) @ [''0123456789'' ! (n mod 10)])"

declare digits.simps [simp del]

text \<open>\<open>strconv.Itoa\<close>: decimal, with a minus sign for a negative number.\<close>

definition Itoa :: "int \<Rightarrow> string" where
  "Itoa i = (if i < 0 then CHR ''-'' # digits (nat (- i)) else digits (nat i))"

text \<open>
  \<open>appendInt\<close> of package \<open>time\<close>: the sign, then the digits padded with zeros on the
  left to the given width.
\<close>

definition appendInt :: "int \<Rightarrow> nat \<Rightarrow> string" where
  "appendInt x width =
     (let u = digits (nat \<bar>x\<bar>)
      in (if x < 0 then ''-'' else []) @ replicate (width - length u) CHR ''0'' @ u)"

text \<open>\<open>Time.Format\<close> at the layout \<open>2006-01-02 15:04:05\<close>.\<close>

definition Format :: "gotime \<Rightarrow> string" where
  "Format t =
     appendInt (year t) 4 @ ''-'' @ appendInt (int (month t)) 2 @ ''-'' @
     appendInt (int (day t)) 2 @ '' '' @ appendInt (int (hour t)) 2 @ '':'' @
     appendInt (int (minute t)) 2 @ '':'' @ appendInt (int (second t)) 2"

definition Nanosecond :: "gotime \<Rightarrow> int" where
  "Nanosecond t = int (nsec t)"

text \<open>\<open>time.Now\<close>: read the clock, and count the call.\<close>

definition timeNow :: "world \<Rightarrow> gotime \<times> world" where
  "timeNow w = (clock w (nowCalls w), w\<lparr>nowCalls := Suc (nowCalls w)\<rparr>)"

subsection \<open>Standard library: printing\<close>

text \<open>The verb \<open>%v\<close> on one operand.\<close>

fun printArg :: "iface \<Rightarrow> string" where
  "printArg (VString s) = s"
| "printArg (VInt i) = Itoa i"
| "printArg (VBool b) = (if b then ''true'' else ''false'')"
| "printArg VNil = ''<nil>''"

fun isString :: "iface \<Rightarrow> bool" where
  "isString (VString s) = True"
| "isString v = False"

text \<open>
  \<open>doPrint\<close> of package \<open>fmt\<close>, behind \<open>Print\<close> and \<open>Fprint\<close>: a space is written
  between two operands when neither of them is a string.
\<close>

fun doPrint :: "nat \<Rightarrow> bool \<Rightarrow> iface list \<Rightarrow> string" where
  "doPrint argNum prevString [] = []"
| "doPrint argNum prevString (arg # rest) =
     (if argNum > 0 \<and> \<not> isString arg \<and> \<not> prevString then '' '' else []) @
     printArg arg @ doPrint (Suc argNum) (isString arg) rest"

definition Sprint :: "iface list \<Rightarrow> string" where
  "Sprint a = doPrint 0 False a"

text \<open>
  \<open>doPrintln\<close>, behind \<open>Println\<close> and \<open>Fprintln\<close>: a space between any two operands
  and a newline at the end.
\<close>

fun doPrintln :: "nat \<Rightarrow> iface list \<Rightarrow> string" where
  "doPrintln argNum [] = [newline]"
| "doPrintln argNum (arg # rest) =
     (if argNum > 0 then '' '' else []) @ printArg arg @ doPrintln (Suc argNum) rest"

definition Sprintln :: "iface list \<Rightarrow> string" where
  "Sprintln a = doPrintln 0 a"

text \<open>
  Writing to a file and to standard output. The package never looks at the result of a
  write, and a write is taken to append all of its bytes.
\<close>

definition writeFile :: "osfile \<Rightarrow> string \<Rightarrow> world \<Rightarrow> world" where
  "writeFile f s w = w\<lparr>files := (files w)(f := files w f @ s)\<rparr>"

definition writeStdout :: "string \<Rightarrow> world \<Rightarrow> world" where
  "writeStdout s w = w\<lparr>stdout := stdout w @ s\<rparr>"

definition Print :: "iface list \<Rightarrow> world \<Rightarrow> world" where
  "Print a w = writeStdout (Sprint a) w"

definition Println :: "iface list \<Rightarrow> world \<Rightarrow> world" where
  "Println a w = writeStdout (Sprintln a) w"

text \<open>
  \<open>fmt.Fprint(logInstance.logDestination, ...)\<close> and its \<open>Fprintln\<close>: reading the field
  of a nil \<open>*LogInstance\<close> panics, which is the result \<open>None\<close>.
\<close>

definition FprintDest :: "LogInstance option \<Rightarrow> iface list \<Rightarrow> world \<Rightarrow> world option" where
  "FprintDest logInstance a w =
     (case logInstance of
        None \<Rightarrow> None
      | Some l \<Rightarrow> Some (writeFile (logDestination l) (Sprint a) w))"

definition FprintlnDest :: "LogInstance option \<Rightarrow> iface list \<Rightarrow> world \<Rightarrow> world option" where
  "FprintlnDest logInstance a w =
     (case logInstance of
        None \<Rightarrow> None
      | Some l \<Rightarrow> Some (writeFile (logDestination l) (Sprintln a) w))"

subsection \<open>Initialize\<close>

text \<open>
  \<open>os.Create\<close> is a parameter: it either fails with an error or yields an open file.
  \<open>Initialize\<close> returns nil (\<open>None\<close>) on an error and a pointer to a fresh instance
  otherwise.
\<close>

datatype os_error = PathError string

definition Initialize :: "(string \<Rightarrow> os_error + osfile) \<Rightarrow> string \<Rightarrow> LogInstance option" where
  "Initialize osCreate path =
     (case osCreate path of
        Inl openError \<Rightarrow> None
      | Inr fileDescriptor \<Rightarrow> Some \<lparr>logDestination = fileDescriptor\<rparr>)"

subsection \<open>generateJSON\<close>

text \<open>
  A \<open>map[string]interface{}\<close> is a partial function. The \<open>range\<close> loop visits every key
  of the map once, in an order the runtime chooses; the chosen order is the argument
  \<open>visit\<close>, and \<open>rangeOrder\<close> says that it is an order of the keys of the map.
\<close>

type_synonym jsonmap = "string \<rightharpoonup> iface"

definition rangeOrder :: "jsonmap \<Rightarrow> string list \<Rightarrow> bool" where
  "rangeOrder jsonData visit = (distinct visit \<and> set visit = dom jsonData)"

fun rangeEntries :: "jsonmap \<Rightarrow> string list \<Rightarrow> (string \<times> iface) list" where
  "rangeEntries jsonData [] = []"
| "rangeEntries jsonData (k # ks) =
     (case jsonData k of
        None \<Rightarrow> rangeEntries jsonData ks
      | Some v \<Rightarrow> (k, v) # rangeEntries jsonData ks)"

text \<open>The body of the loop of \<open>generateJSON\<close>, over the entries in the order visited.\<close>

fun rangeLoop ::
  "LogInstance option \<Rightarrow> bool \<Rightarrow> bool \<Rightarrow> (string \<times> iface) list \<Rightarrow> world \<Rightarrow> world option"
where
  "rangeLoop logInstance needFileOutPut needTerminalOutput [] w = Some w"
| "rangeLoop logInstance needFileOutPut needTerminalOutput ((jsonKey, jsonValue) # rest) w =
     Option.bind
       (if needFileOutPut
        then FprintDest logInstance
               [VString '' ('', VString jsonKey, VString '': '', jsonValue, VString '')''] w
        else Some w)
       (\<lambda>w1. rangeLoop logInstance needFileOutPut needTerminalOutput rest
          (if needTerminalOutput
           then Print [VString '' ('', VString jsonKey, VString '': '', jsonValue, VString '')''] w1
           else w1))"

definition generateJSON ::
  "LogInstance option \<Rightarrow> bool \<Rightarrow> bool \<Rightarrow> jsonmap \<Rightarrow> string list \<Rightarrow> world \<Rightarrow> world option"
where
  "generateJSON logInstance needFileOutPut needTerminalOutput jsonData visit w =
     Option.bind
       (if needFileOutPut then FprintDest logInstance [VString '' [''] w else Some w)
       (\<lambda>w1. Option.bind
          (rangeLoop logInstance needFileOutPut needTerminalOutput
             (rangeEntries jsonData visit)
             (if needTerminalOutput then Print [VString '' [''] w1 else w1))
          (\<lambda>w2. Option.bind
             (if needFileOutPut then FprintDest logInstance [VString '' ]''] w2 else Some w2)
             (\<lambda>w3. Some (if needTerminalOutput then Print [VString '' ]''] w3 else w3))))"

subsection \<open>printOutPut\<close>

text \<open>
  The three parts of \<open>printOutPut\<close>: the prefix, the file, the terminal. \<open>jsonContent\<close>
  is \<open>None\<close> for the nil map. The two \<open>range\<close> loops of one call, one per sink, may
  visit the map in different orders: \<open>fileVisit\<close> and \<open>termVisit\<close>.
\<close>

definition messagePrefixOf :: "gotime \<Rightarrow> string \<Rightarrow> string" where
  "messagePrefixOf getTime messageType =
     (let generateLongTime = Format getTime;
          generatedTimeMillSeconds = Nanosecond getTime div 1000000;
          generatedTimeNanoSeconds = Nanosecond getTime;
          generatedTime = generateLongTime @ '':'' @ Itoa generatedTimeMillSeconds @ '':'' @
            Itoa generatedTimeNanoSeconds
      in generatedTime @ messageType)"

definition printToFile ::
  "LogInstance option \<Rightarrow> string \<Rightarrow> jsonmap option \<Rightarrow> iface list \<Rightarrow> string list \<Rightarrow>
   world \<Rightarrow> world option"
where
  "printToFile logInstance messagePrefix jsonContent messageContent fileVisit w =
     Option.bind (FprintDest logInstance [VString messagePrefix] w)
       (\<lambda>w1. Option.bind (FprintDest logInstance messageContent w1)
          (\<lambda>w2. Option.bind
             (case jsonContent of
                None \<Rightarrow> Some w2
              | Some jsonData \<Rightarrow> generateJSON logInstance True False jsonData fileVisit w2)
             (\<lambda>w3. FprintlnDest logInstance [] w3)))"

definition colorCodeOf :: "string \<Rightarrow> string" where
  "colorCodeOf messageType =
     (if messageType = MessageNormal then ColorDefault
      else if messageType = MessageFatal then ColorRed
      else if messageType = MessageWarning then ColorYellow
      else [])"

definition printToTerminal ::
  "LogInstance option \<Rightarrow> bool \<Rightarrow> bool \<Rightarrow> string \<Rightarrow> string \<Rightarrow> jsonmap option \<Rightarrow>
   iface list \<Rightarrow> string list \<Rightarrow> world \<Rightarrow> world option"
where
  "printToTerminal logInstance needTerminalOutput needTerminalColoredOutput messageType
     messagePrefix jsonContent messageContent termVisit w =
     (if needTerminalOutput \<and> needTerminalColoredOutput then
        (let colorCode = colorCodeOf messageType;
             w1 = Print [VString colorCode, VString messagePrefix] w;
             w2 = Print messageContent w1
         in Option.bind
              (case jsonContent of
                 None \<Rightarrow> Some w2
               | Some jsonData \<Rightarrow> generateJSON logInstance False True jsonData termVisit w2)
              (\<lambda>w3. Some (Println [VString ColorDefault] w3)))
      else if needTerminalOutput then
        (let w1 = Print [VString messagePrefix] w;
             w2 = Print messageContent w1
         in Option.bind
              (case jsonContent of
                 None \<Rightarrow> Some w2
               | Some jsonData \<Rightarrow> generateJSON logInstance False True jsonData termVisit w2)
              (\<lambda>w3. Some (Println [] w3)))
      else Some w)"

definition printOutPut ::
  "LogInstance option \<Rightarrow> bool \<Rightarrow> bool \<Rightarrow> bool \<Rightarrow> string \<Rightarrow> jsonmap option \<Rightarrow>
   iface list \<Rightarrow> string list \<Rightarrow> string list \<Rightarrow> world \<Rightarrow> outcome"
where
  "printOutPut logInstance needFileOutput needTerminalOutput needTerminalColoredOutput
     messageType jsonContent messageContent fileVisit termVisit w =
     (let (getTime, w0) = timeNow w;
          messagePrefix = messagePrefixOf getTime messageType
      in case Option.bind
                (if needFileOutput
                 then printToFile logInstance messagePrefix jsonContent messageContent
                        fileVisit w0
                 else Some w0)
                (printToTerminal logInstance needTerminalOutput needTerminalColoredOutput
                   messageType messagePrefix jsonContent messageContent termVisit)
         of None \<Rightarrow> Panics
          | Some w' \<Rightarrow> if messageType = MessageFatal then Exits 1 w' else Returns w')"

subsection \<open>The vocabulary of the specification\<close>

text \<open>
  The specification speaks of three severities. The callers that turn a severity into the
  \<open>messageType\<close> string pass one of the three constants of the package.
\<close>

datatype severity = Normal | Warning | Fatal

fun tag :: "severity \<Rightarrow> string" where
  "tag Normal = MessageNormal"
| "tag Fatal = MessageFatal"
| "tag Warning = MessageWarning"

text \<open>The literal tags and colour codes, as the specification spells them.\<close>

fun specTag :: "severity \<Rightarrow> string" where
  "specTag Normal = '' [ INFO ] ''"
| "specTag Fatal = '' [ ERRO ] ''"
| "specTag Warning = '' [ WARN ] ''"

fun specColor :: "severity \<Rightarrow> string" where
  "specColor Normal = CHR 0x1B # ''[0;0m''"
| "specColor Fatal = CHR 0x1B # ''[31;1m''"
| "specColor Warning = CHR 0x1B # ''[33;1m''"

text \<open>
  The prefix in the words of the specification: the formatted time, a colon, the
  milliseconds, a colon, the nanoseconds, the tag.
\<close>

definition specPrefix :: "gotime \<Rightarrow> severity \<Rightarrow> string" where
  "specPrefix T S =
     Format T @ '':'' @ Itoa (int (nsec T div 1000000)) @ '':'' @ Itoa (int (nsec T)) @ specTag S"

text \<open>
  Structured data in the words of the specification: one fragment per entry, between an
  opening and a closing bracket.
\<close>

definition fragment :: "string \<times> iface \<Rightarrow> string" where
  "fragment e = '' ('' @ fst e @ '': '' @ printArg (snd e) @ '')''"

definition renderStructured :: "(string \<times> iface) list \<Rightarrow> string" where
  "renderStructured es = '' ['' @ concat (map fragment es) @ '' ]''"

definition dataText :: "jsonmap option \<Rightarrow> string list \<Rightarrow> string" where
  "dataText jsonContent visit =
     (case jsonContent of
        None \<Rightarrow> []
      | Some jsonData \<Rightarrow> renderStructured (rangeEntries jsonData visit))"

text \<open>The line that one call writes to the terminal.\<close>

definition terminalLine ::
  "bool \<Rightarrow> string \<Rightarrow> string \<Rightarrow> jsonmap option \<Rightarrow> iface list \<Rightarrow> string list \<Rightarrow> string"
where
  "terminalLine colored messageType messagePrefix jsonContent messageContent termVisit =
     (if colored
      then colorCodeOf messageType @ messagePrefix @ Sprint messageContent @
           dataText jsonContent termVisit @ ColorDefault @ [newline]
      else messagePrefix @ Sprint messageContent @ dataText jsonContent termVisit @ [newline])"

definition finish :: "string \<Rightarrow> world \<Rightarrow> outcome" where
  "finish messageType w = (if messageType = MessageFatal then Exits 1 w else Returns w)"

text \<open>What can be observed of an outcome.\<close>

fun worldOf :: "outcome \<Rightarrow> world option" where
  "worldOf (Returns w) = Some w"
| "worldOf (Exits status w) = Some w"
| "worldOf Panics = None"

fun exitStatus :: "outcome \<Rightarrow> int option" where
  "exitStatus (Returns w) = None"
| "exitStatus (Exits status w) = Some status"
| "exitStatus Panics = None"

definition fileAfter :: "outcome \<Rightarrow> osfile \<Rightarrow> string option" where
  "fileAfter r f = map_option (\<lambda>w. files w f) (worldOf r)"

definition stdoutAfter :: "outcome \<Rightarrow> string option" where
  "stdoutAfter r = map_option stdout (worldOf r)"

text \<open>
  A text is free of colour codes when none of the three escape sequences occurs in it as
  a contiguous piece.
\<close>

definition codeFree :: "string \<Rightarrow> bool" where
  "codeFree xs =
     (\<not> sublist ColorDefault xs \<and> \<not> sublist ColorRed xs \<and> \<not> sublist ColorYellow xs)"

definition isCode :: "string \<Rightarrow> bool" where
  "isCode s = (s = ColorDefault \<or> s = ColorRed \<or> s = ColorYellow)"

text \<open>The characters a prefix is made of.\<close>

definition plainChars :: "char set" where
  "plainChars = set ''-0123456789 :[]INFOERWA''"

text \<open>Concrete inputs for the examples.\<close>

definition sampleTime :: gotime where
  "sampleTime =
     \<lparr>year = 2023, month = 9, day = 5, hour = 7, minute = 8, second = 9, nsec = 12345678\<rparr>"

definition sampleWorld :: world where
  "sampleWorld = \<lparr>files = (\<lambda>f. []), stdout = [], clock = (\<lambda>n. sampleTime), nowCalls = 0\<rparr>"

definition sampleInstance :: LogInstance where
  "sampleInstance = \<lparr>logDestination = 3\<rparr>"

definition sampleData :: jsonmap where
  "sampleData = [''x'' \<mapsto> VInt 1]"

definition sampleData2 :: jsonmap where
  "sampleData2 = [''x'' \<mapsto> VInt 1, ''ok'' \<mapsto> VBool True]"

definition sampleCreate :: "string \<Rightarrow> os_error + osfile" where
  "sampleCreate path = (if path = ''/missing/app.log'' then Inl (PathError path) else Inr 3)"

section \<open>Properties of the embedding\<close>

subsection \<open>What the printing functions produce\<close>

lemma Sprint_string [simp]: "Sprint [VString s] = s"
  by (simp add: Sprint_def)

lemma Sprint_two_strings [simp]: "Sprint [VString s, VString t] = s @ t"
  by (simp add: Sprint_def)

lemma Sprint_entry [simp]:
  "Sprint [VString '' ('', VString k, VString '': '', v, VString '')''] = fragment (k, v)"
  by (simp add: Sprint_def fragment_def)

lemma Sprintln_empty [simp]: "Sprintln [] = [newline]"
  by (simp add: Sprintln_def)

lemma Sprintln_string [simp]: "Sprintln [VString s] = s @ [newline]"
  by (simp add: Sprintln_def)

lemma digits_lt10: "n < 10 \<Longrightarrow> digits n = [''0123456789'' ! n]"
  by (simp add: digits.simps)

lemma digits_ge10: "10 \<le> n \<Longrightarrow> digits n = digits (n div 10) @ [''0123456789'' ! (n mod 10)]"
  by (subst digits.simps) simp

lemmas digits_eval = digits_lt10 digits_ge10

lemma sprint_a_1_true: "Sprint [VString ''a'', VInt 1, VBool True] = ''a1 true''"
  by (simp add: Sprint_def Itoa_def digits_lt10)

subsection \<open>Writes\<close>

lemma writeFile_writeFile [simp]:
  "writeFile f t (writeFile f s w) = writeFile f (s @ t) w"
  by (simp add: writeFile_def)

lemma writeStdout_writeStdout [simp]:
  "writeStdout t (writeStdout s w) = writeStdout (s @ t) w"
  by (simp add: writeStdout_def)

lemma writeFile_Nil [simp]: "writeFile f [] w = w"
  by (simp add: writeFile_def)

lemma writeStdout_Nil [simp]: "writeStdout [] w = w"
  by (simp add: writeStdout_def)

lemma files_writeFile [simp]:
  "files (writeFile f s w) = (files w)(f := files w f @ s)"
  by (simp add: writeFile_def)

lemma stdout_writeFile [simp]: "stdout (writeFile f s w) = stdout w"
  by (simp add: writeFile_def)

lemma nowCalls_writeFile [simp]: "nowCalls (writeFile f s w) = nowCalls w"
  by (simp add: writeFile_def)

lemma files_writeStdout [simp]: "files (writeStdout s w) = files w"
  by (simp add: writeStdout_def)

lemma stdout_writeStdout [simp]: "stdout (writeStdout s w) = stdout w @ s"
  by (simp add: writeStdout_def)

lemma nowCalls_writeStdout [simp]: "nowCalls (writeStdout s w) = nowCalls w"
  by (simp add: writeStdout_def)

lemma FprintDest_Some [simp]:
  "FprintDest (Some l) a w = Some (writeFile (logDestination l) (Sprint a) w)"
  by (simp add: FprintDest_def)

lemma FprintlnDest_Some [simp]:
  "FprintlnDest (Some l) a w = Some (writeFile (logDestination l) (Sprintln a) w)"
  by (simp add: FprintlnDest_def)

subsection \<open>The loop and the two sinks in closed form\<close>

text \<open>
  On an instance that is not nil nothing panics, and each function appends one text to
  its sink. The loop is handled by induction on the entries, with the world generalised.
\<close>

lemma rangeLoop_file:
  "rangeLoop (Some l) True False es w =
     Some (writeFile (logDestination l) (concat (map fragment es)) w)"
  by (induction es arbitrary: w) auto

lemma rangeLoop_terminal:
  "rangeLoop logInstance False True es w = Some (writeStdout (concat (map fragment es)) w)"
  by (induction es arbitrary: w) (auto simp: Print_def)

lemma rangeLoop_no_file:
  "rangeLoop logInstance False needTerminalOutput es w =
     Some (if needTerminalOutput then writeStdout (concat (map fragment es)) w else w)"
proof (cases needTerminalOutput)
  case True
  then show ?thesis by (simp add: rangeLoop_terminal)
next
  case False
  have "rangeLoop logInstance False False es w = Some w"
    by (induction es arbitrary: w) auto
  with False show ?thesis by simp
qed

lemma generateJSON_file:
  "generateJSON (Some l) True False jsonData visit w =
     Some (writeFile (logDestination l) (renderStructured (rangeEntries jsonData visit)) w)"
  by (simp add: generateJSON_def rangeLoop_file renderStructured_def)

lemma generateJSON_terminal:
  "generateJSON logInstance False True jsonData visit w =
     Some (writeStdout (renderStructured (rangeEntries jsonData visit)) w)"
  by (simp add: generateJSON_def rangeLoop_terminal renderStructured_def Print_def)

lemma dataText_None [simp]: "dataText None visit = []"
  by (simp add: dataText_def)

lemma dataText_sample: "dataText (Some sampleData) [''x''] = '' [ (x: 1) ]''"
  by (simp add: dataText_def sampleData_def renderStructured_def fragment_def Itoa_def
      digits_lt10)

lemma printToFile_Some:
  "printToFile (Some l) messagePrefix jsonContent messageContent fileVisit w =
     Some (writeFile (logDestination l)
            (messagePrefix @ Sprint messageContent @ dataText jsonContent fileVisit @ [newline]) w)"
  by (cases jsonContent) (simp_all add: printToFile_def dataText_def generateJSON_file)

lemma printToTerminal_eq:
  "printToTerminal logInstance needTerminalOutput colored messageType messagePrefix
     jsonContent messageContent termVisit w =
     Some (if needTerminalOutput
           then writeStdout (terminalLine colored messageType messagePrefix jsonContent
                  messageContent termVisit) w
           else w)"
  by (cases jsonContent)
    (simp_all add: printToTerminal_def terminalLine_def dataText_def generateJSON_terminal
      Print_def Println_def Let_def)

lemma worldOf_finish [simp]: "worldOf (finish messageType w) = Some w"
  by (simp add: finish_def)

lemma printOutPut_Some:
  "printOutPut (Some l) needFileOutput needTerminalOutput colored messageType jsonContent
     messageContent fileVisit termVisit w =
   (let p = messagePrefixOf (clock w (nowCalls w)) messageType;
        w0 = w\<lparr>nowCalls := Suc (nowCalls w)\<rparr>;
        w1 = (if needFileOutput
              then writeFile (logDestination l)
                     (p @ Sprint messageContent @ dataText jsonContent fileVisit @ [newline]) w0
              else w0);
        w2 = (if needTerminalOutput
              then writeStdout (terminalLine colored messageType p jsonContent messageContent
                     termVisit) w1
              else w1)
    in finish messageType w2)"
  by (simp add: printOutPut_def timeNow_def printToFile_Some printToTerminal_eq finish_def Let_def)

lemma printOutPut_noFile:
  "printOutPut logInstance False needTerminalOutput colored messageType jsonContent
     messageContent fileVisit termVisit w =
   (let p = messagePrefixOf (clock w (nowCalls w)) messageType;
        w0 = w\<lparr>nowCalls := Suc (nowCalls w)\<rparr>;
        w2 = (if needTerminalOutput
              then writeStdout (terminalLine colored messageType p jsonContent messageContent
                     termVisit) w0
              else w0)
    in finish messageType w2)"
  by (simp add: printOutPut_def timeNow_def printToTerminal_eq finish_def Let_def)

subsection \<open>Tags, colours and the characters of a prefix\<close>

lemma tag_specTag: "tag S = specTag S"
  by (cases S) (simp_all add: MessageNormal_def MessageFatal_def MessageWarning_def)

lemma colorCodeOf_tag: "colorCodeOf (tag S) = specColor S"
  by (cases S)
    (simp_all add: colorCodeOf_def MessageNormal_def MessageFatal_def MessageWarning_def
      ColorDefault_def ColorRed_def ColorYellow_def ESC_def)

lemma messagePrefixOf_tag: "messagePrefixOf T (tag S) = specPrefix T S"
  by (simp add: messagePrefixOf_def specPrefix_def Nanosecond_def tag_specTag zdiv_int)

lemma digit_plain: "k < 10 \<Longrightarrow> ''0123456789'' ! k \<in> plainChars"
proof -
  assume "k < 10"
  then have "''0123456789'' ! k \<in> set ''0123456789''"
    by (intro nth_mem) simp
  then show ?thesis
    unfolding plainChars_def by auto
qed

lemma digits_plain: "set (digits n) \<subseteq> plainChars"
proof (induction n rule: digits.induct)
  case (1 n)
  show ?case
  proof (cases "n < 10")
    case True
    then show ?thesis using digit_plain [of n] by (simp add: digits_lt10)
  next
    case False
    have "n mod 10 < 10" by simp
    then have "''0123456789'' ! (n mod 10) \<in> plainChars" by (rule digit_plain)
    with False 1 show ?thesis
      by (simp add: digits_ge10)
  qed
qed

lemma Itoa_plain: "set (Itoa i) \<subseteq> plainChars"
proof -
  have "CHR ''-'' \<in> plainChars" by (simp add: plainChars_def)
  then show ?thesis
    using digits_plain [of "nat i"] digits_plain [of "nat (- i)"]
    by (simp add: Itoa_def)
qed

lemma appendInt_plain: "set (appendInt x width) \<subseteq> plainChars"
proof -
  have "CHR ''-'' \<in> plainChars" "CHR ''0'' \<in> plainChars" by (simp_all add: plainChars_def)
  then show ?thesis
    using digits_plain [of "nat \<bar>x\<bar>"]
    by (auto simp: appendInt_def Let_def)
qed

lemma Format_plain: "set (Format T) \<subseteq> plainChars"
proof -
  have "CHR ''-'' \<in> plainChars" "CHR '' '' \<in> plainChars" "CHR '':'' \<in> plainChars"
    by (simp_all add: plainChars_def)
  then show ?thesis
    by (simp add: Format_def appendInt_plain)
qed

lemma specTag_plain: "set (specTag S) \<subseteq> plainChars"
  by (cases S) (simp_all add: plainChars_def)

lemma specPrefix_plain: "set (specPrefix T S) \<subseteq> plainChars"
proof -
  have "CHR '':'' \<in> plainChars" by (simp add: plainChars_def)
  then show ?thesis
    by (simp add: specPrefix_def Format_plain Itoa_plain specTag_plain)
qed

lemma newline_notin_prefix: "newline \<notin> set (specPrefix T S)"
proof -
  have "newline \<notin> plainChars" by (simp add: plainChars_def newline_def)
  then show ?thesis using specPrefix_plain [of T S] by blast
qed

lemma ESC_notin_prefix: "ESC \<notin> set (specPrefix T S)"
proof -
  have "ESC \<notin> plainChars" by (simp add: plainChars_def ESC_def)
  then show ?thesis using specPrefix_plain [of T S] by blast
qed

subsection \<open>The entries a range loop visits\<close>

lemma set_rangeEntries:
  "set (rangeEntries jsonData ks) = {(k, v). k \<in> set ks \<and> jsonData k = Some v}"
  by (induction ks) (auto split: option.splits)

lemma distinct_rangeEntries: "distinct ks \<Longrightarrow> distinct (rangeEntries jsonData ks)"
  by (induction ks) (auto simp: set_rangeEntries split: option.splits)

lemma rangeOrder_entries:
  assumes "rangeOrder jsonData visit"
  shows "distinct (rangeEntries jsonData visit)"
    and "set (rangeEntries jsonData visit) = Map.graph jsonData"
proof -
  from assms have d: "distinct visit" and s: "set visit = dom jsonData"
    by (simp_all add: rangeOrder_def)
  from d show "distinct (rangeEntries jsonData visit)"
    by (rule distinct_rangeEntries)
  from s show "set (rangeEntries jsonData visit) = Map.graph jsonData"
    by (auto simp: set_rangeEntries Map.graph_def)
qed

lemma distinct_single:
  assumes "distinct xs" and "set xs = {a}"
  shows "xs = [a]"
proof (cases xs)
  case Nil
  with assms show ?thesis by simp
next
  case (Cons b rest)
  with assms have "b = a" by auto
  moreover from Cons assms have "set rest \<subseteq> {a}" "b \<notin> set rest" by auto
  ultimately have "rest = []" by (cases rest) auto
  with Cons \<open>b = a\<close> show ?thesis by simp
qed

lemma rangeOrder_single:
  "rangeOrder [k \<mapsto> v] visit \<Longrightarrow> visit = [k]"
  by (rule distinct_single) (simp_all add: rangeOrder_def)

subsection \<open>Colour codes inside a text\<close>

text \<open>
  Every colour code starts with the escape character and contains no space, bracket of
  a fragment, colon or newline. So a code that occurs in a line lies inside one of the
  pieces the caller supplied.
\<close>

lemma codeFree_iff: "codeFree xs \<longleftrightarrow> (\<forall>s. isCode s \<longrightarrow> \<not> sublist s xs)"
  by (auto simp: codeFree_def isCode_def)

lemma isCode_ESC: "isCode s \<Longrightarrow> \<exists>r. s = ESC # r \<and> ESC \<notin> set r"
  by (auto simp: isCode_def ColorDefault_def ColorRed_def ColorYellow_def ESC_def)

lemma isCode_chars:
  assumes "isCode s"
  shows "CHR '' '' \<notin> set s" "CHR ''('' \<notin> set s" "CHR '':'' \<notin> set s" "CHR '')'' \<notin> set s"
    "newline \<notin> set s"
  using assms
  by (auto simp: isCode_def ColorDefault_def ColorRed_def ColorYellow_def ESC_def newline_def)

lemma codeFree_no_ESC: "ESC \<notin> set xs \<Longrightarrow> codeFree xs"
  unfolding codeFree_def ColorDefault_def ColorRed_def ColorYellow_def
  using set_mono_sublist by fastforce

lemma sublist_ESC_skip:
  assumes "sublist (ESC # r) (xs @ ys)" and "ESC \<notin> set xs"
  shows "sublist (ESC # r) ys"
proof -
  from assms(1) consider "sublist (ESC # r) xs" | "sublist (ESC # r) ys"
    | s1 s2 where "ESC # r = s1 @ s2" "suffix s1 xs" "prefix s2 ys"
    by (auto simp: sublist_append)
  then show ?thesis
  proof cases
    case 1
    then have "ESC \<in> set xs" using set_mono_sublist by fastforce
    with assms(2) show ?thesis by simp
  next
    case 2
    then show ?thesis .
  next
    case 3
    show ?thesis
    proof (cases s1)
      case Nil
      with 3 show ?thesis by simp
    next
      case (Cons a s1')
      with 3 have "a = ESC" by simp
      with Cons 3(2) have "ESC \<in> set xs" using set_mono_suffix by fastforce
      with assms(2) show ?thesis by simp
    qed
  qed
qed

lemma sublist_split_at:
  assumes "sublist s (xs @ c # ys)" and "c \<notin> set s"
  shows "sublist s xs \<or> sublist s ys"
proof -
  from assms(1) consider "sublist s xs" | "sublist s (c # ys)"
    | s1 s2 where "s = s1 @ s2" "suffix s1 xs" "prefix s2 (c # ys)"
    by (auto simp: sublist_append)
  then show ?thesis
  proof cases
    case 1
    then show ?thesis by simp
  next
    case 2
    then have "prefix s (c # ys) \<or> sublist s ys" by (simp add: sublist_Cons_right)
    then show ?thesis
    proof
      assume "prefix s (c # ys)"
      with assms(2) have "s = []" by (cases s) auto
      then show ?thesis by simp
    qed simp
  next
    case 3
    from 3(3) 3(1) assms(2) have "s2 = []" by (cases s2) auto
    with 3 show ?thesis by auto
  qed
qed

lemma codeFree_fragments:
  assumes "isCode s"
    and "\<forall>e \<in> set es. \<not> sublist s (fst e) \<and> \<not> sublist s (printArg (snd e))"
    and "\<not> sublist s after"
  shows "\<not> sublist s (concat (map fragment es) @ after)"
  using assms(2)
proof (induction es)
  case Nil
  with assms(3) show ?case by simp
next
  case (Cons e es)
  then have ih: "\<not> sublist s (concat (map fragment es) @ after)"
    and k: "\<not> sublist s (fst e)" and v: "\<not> sublist s (printArg (snd e))"
    by simp_all
  from assms(1) have ne: "\<not> sublist s []"
    using isCode_ESC by fastforce
  let ?rest = "concat (map fragment es) @ after"
  have 1: "\<not> sublist s (printArg (snd e) @ CHR '')'' # ?rest)"
    using sublist_split_at [of s "printArg (snd e)" "CHR '')''" ?rest] isCode_chars(4) [OF assms(1)]
      v ih by blast
  have 2: "\<not> sublist s ([] @ CHR '' '' # printArg (snd e) @ CHR '')'' # ?rest)"
    using sublist_split_at [of s "[]" "CHR '' ''" "printArg (snd e) @ CHR '')'' # ?rest"]
      isCode_chars(1) [OF assms(1)] ne 1 by blast
  have 3: "\<not> sublist s (fst e @ CHR '':'' # [] @ CHR '' '' # printArg (snd e) @ CHR '')'' # ?rest)"
    using sublist_split_at [of s "fst e" "CHR '':''"
        "[] @ CHR '' '' # printArg (snd e) @ CHR '')'' # ?rest"]
      isCode_chars(3) [OF assms(1)] k 2 by blast
  have 4: "\<not> sublist s ([] @ CHR ''('' # fst e @ CHR '':'' # [] @ CHR '' '' #
      printArg (snd e) @ CHR '')'' # ?rest)"
    using sublist_split_at [of s "[]" "CHR ''(''"
        "fst e @ CHR '':'' # [] @ CHR '' '' # printArg (snd e) @ CHR '')'' # ?rest"]
      isCode_chars(2) [OF assms(1)] ne 3 by blast
  have 5: "\<not> sublist s ([] @ CHR '' '' # [] @ CHR ''('' # fst e @ CHR '':'' # [] @ CHR '' '' #
      printArg (snd e) @ CHR '')'' # ?rest)"
    using sublist_split_at [of s "[]" "CHR '' ''"
        "[] @ CHR ''('' # fst e @ CHR '':'' # [] @ CHR '' '' # printArg (snd e) @ CHR '')'' # ?rest"]
      isCode_chars(1) [OF assms(1)] ne 4 by blast
  have fe: "fragment e = '' ('' @ fst e @ '': '' @ printArg (snd e) @ '')''"
    by (simp add: fragment_def)
  from 5 show ?case by (simp add: fe)
qed

lemma codeFree_rendered:
  assumes "isCode s"
    and "\<forall>e \<in> set es. \<not> sublist s (fst e) \<and> \<not> sublist s (printArg (snd e))"
  shows "\<not> sublist s (renderStructured es @ [newline])"
proof -
  from assms(1) obtain r where s: "s = ESC # r" using isCode_ESC by blast
  from assms(1) have ne: "\<not> sublist s []"
    using isCode_ESC by fastforce
  have t0: "\<not> sublist s [newline]"
    using sublist_split_at [of s "[]" newline "[]"] isCode_chars(5) [OF assms(1)] ne by auto
  have t1: "\<not> sublist s ('']'' @ [newline])"
  proof
    assume "sublist s ('']'' @ [newline])"
    then have "sublist s [newline]"
      unfolding s by (rule sublist_ESC_skip) (simp add: ESC_def)
    with t0 show False ..
  qed
  have t2: "\<not> sublist s ([] @ CHR '' '' # '']'' @ [newline])"
    using sublist_split_at [of s "[]" "CHR '' ''" "'']'' @ [newline]"]
      isCode_chars(1) [OF assms(1)] ne t1 by blast
  have f: "\<not> sublist s (concat (map fragment es) @ '' ]'' @ [newline])"
    using codeFree_fragments [OF assms(1) assms(2), of "'' ]'' @ [newline]"] t2 by simp
  show ?thesis
  proof
    assume "sublist s (renderStructured es @ [newline])"
    then have "sublist (ESC # r) ('' ['' @ concat (map fragment es) @ '' ]'' @ [newline])"
      by (simp add: renderStructured_def s)
    then have "sublist (ESC # r) (concat (map fragment es) @ '' ]'' @ [newline])"
      by (rule sublist_ESC_skip) (simp add: ESC_def)
    with f s show False by simp
  qed
qed

lemma no_code_in_line:
  assumes c: "isCode s"
    and parts: "\<not> sublist s body"
    and entries: "\<forall>jsonData k v. jsonContent = Some jsonData \<longrightarrow> jsonData k = Some v \<longrightarrow>
       \<not> sublist s k \<and> \<not> sublist s (printArg v)"
  shows "\<not> sublist s (specPrefix T S @ body @ dataText jsonContent visit @ [newline])"
proof
  assume a: "sublist s (specPrefix T S @ body @ dataText jsonContent visit @ [newline])"
  from c obtain r where s: "s = ESC # r" using isCode_ESC by blast
  from c have ne: "\<not> sublist s []" using isCode_ESC by fastforce
  from a have b: "sublist s (body @ dataText jsonContent visit @ [newline])"
    unfolding s by (rule sublist_ESC_skip) (rule ESC_notin_prefix)
  show False
  proof (cases jsonContent)
    case None
    with b have "sublist s (body @ newline # [])" by simp
    then have "sublist s body \<or> sublist s []"
      using isCode_chars(5) [OF c] by (rule sublist_split_at)
    with parts ne show False by blast
  next
    case (Some jsonData)
    let ?es = "rangeEntries jsonData visit"
    have "\<forall>e \<in> set ?es. \<not> sublist s (fst e) \<and> \<not> sublist s (printArg (snd e))"
      using entries Some by (auto simp: set_rangeEntries)
    with c have d: "\<not> sublist s (renderStructured ?es @ [newline])"
      by (rule codeFree_rendered)
    obtain x where x: "renderStructured ?es @ [newline] = CHR '' '' # x"
      by (simp add: renderStructured_def)
    from b Some have "sublist s (body @ renderStructured ?es @ [newline])"
      by (simp add: dataText_def)
    then have "sublist s (body @ CHR '' '' # x)" by (simp only: x)
    then have "sublist s body \<or> sublist s x"
      using isCode_chars(1) [OF c] by (rule sublist_split_at)
    with parts have "sublist s x" by blast
    then have "sublist s (CHR '' '' # x)" by (simp add: sublist_Cons_right)
    with d x show False by simp
  qed
qed

section \<open>The claims\<close>

text \<open>
  Claim C1, as stated: an emission to the file only, with the message parts \<open>"a", 1, true\<close>,
  appends one line whose body after the prefix is \<open>a1true\<close> and a newline. The code
  prints the parts with \<open>fmt.Fprint\<close>, which writes a space between two operands when
  neither is a string: the body is \<open>a1 true\<close>. The statement below evaluates the call
  and shows that the file does not hold the prefix followed by \<open>a1true\<close>.
\<close>

theorem file_line_separator_free_counterexample:
  "fileAfter (printOutPut (Some sampleInstance) True False False MessageNormal None
      [VString ''a'', VInt 1, VBool True] [] [] sampleWorld) 3
    = Some (''2023-09-05 07:08:09:12:12345678 [ INFO ] a1 true'' @ [newline]) \<and>
   fileAfter (printOutPut (Some sampleInstance) True False False MessageNormal None
      [VString ''a'', VInt 1, VBool True] [] [] sampleWorld) 3
    \<noteq> Some (files sampleWorld 3 @ messagePrefixOf sampleTime MessageNormal @
          ''a1true'' @ [newline])"
  by (simp add: printOutPut_Some fileAfter_def Let_def sampleWorld_def sampleInstance_def
      sprint_a_1_true messagePrefixOf_def sampleTime_def Format_def appendInt_def Nanosecond_def
      MessageNormal_def Itoa_def digits_eval)

text \<open>
  Claim C1, amended: for every severity, an emission to the file only with the message
  parts \<open>"a", 1, true\<close> and no structured data appends to the destination file the prefix,
  then \<open>a1 true\<close> (a space between the two operands that are not strings), then a
  newline; the appended text holds exactly one newline.
\<close>

theorem file_line_a_1_true:
  "fileAfter (printOutPut (Some l) True False colored (tag S) None
       [VString ''a'', VInt 1, VBool True] fileVisit termVisit w) (logDestination l)
     = Some (files w (logDestination l) @ specPrefix (clock w (nowCalls w)) S @
             ''a1 true'' @ [newline]) \<and>
   count_list (specPrefix (clock w (nowCalls w)) S @ ''a1 true'' @ [newline]) newline = 1"
proof
  show "fileAfter (printOutPut (Some l) True False colored (tag S) None
       [VString ''a'', VInt 1, VBool True] fileVisit termVisit w) (logDestination l)
     = Some (files w (logDestination l) @ specPrefix (clock w (nowCalls w)) S @
             ''a1 true'' @ [newline])"
    by (simp add: printOutPut_Some fileAfter_def Let_def sprint_a_1_true messagePrefixOf_tag)
  have "count_list (specPrefix (clock w (nowCalls w)) S) newline = 0"
    using newline_notin_prefix by (simp add: count_list_0_iff)
  then show "count_list (specPrefix (clock w (nowCalls w)) S @ ''a1 true'' @ [newline]) newline = 1"
    by (simp add: newline_def)
qed


theorem file_line_a_1_true_witness:
  "fileAfter (printOutPut (Some sampleInstance) True False False MessageNormal None
       [VString ''a'', VInt 1, VBool True] [] [] sampleWorld) 3
     = Some (''2023-09-05 07:08:09:12:12345678 [ INFO ] a1 true'' @ [newline])"
  using file_line_a_1_true [of sampleInstance False Normal "[]" "[]" sampleWorld]
  by (simp add: sampleInstance_def sampleWorld_def specPrefix_def sampleTime_def Format_def
      appendInt_def Itoa_def digits_eval)


text \<open>
  Claim C2: for every time read from the clock and every severity, the prefix built by
  an emission is the formatted time, a colon, the decimal milliseconds (the nanoseconds
  divided by one million), a colon, the decimal nanoseconds and the tag of the severity,
  the tags being \<open> [ INFO ] \<close>, \<open> [ ERRO ] \<close> and \<open> [ WARN ] \<close>; and this is the text
  with which the line in the file and the line on the terminal begin.
\<close>

theorem prefix_of_emission:
  "messagePrefixOf T (tag S) = specPrefix T S \<and>
   fileAfter (printOutPut (Some l) True needTerminalOutput colored (tag S) jsonContent
       messageContent fileVisit termVisit w) (logDestination l)
     = Some (files w (logDestination l) @ specPrefix (clock w (nowCalls w)) S @
             Sprint messageContent @ dataText jsonContent fileVisit @ [newline]) \<and>
   stdoutAfter (printOutPut logInstance False True False (tag S) jsonContent
       messageContent fileVisit termVisit w)
     = Some (stdout w @ specPrefix (clock w (nowCalls w)) S @
             Sprint messageContent @ dataText jsonContent termVisit @ [newline])"
  by (simp add: printOutPut_Some printOutPut_noFile fileAfter_def stdoutAfter_def Let_def
      messagePrefixOf_tag terminalLine_def)


theorem prefix_of_emission_witness:
  "messagePrefixOf sampleTime MessageWarning = ''2023-09-05 07:08:09:12:12345678 [ WARN ] ''"
  using prefix_of_emission [of sampleTime Warning sampleInstance False False None "[]" "[]" "[]"
      sampleWorld None]
  by (simp add: specPrefix_def sampleTime_def Format_def appendInt_def Itoa_def digits_eval)


text \<open>
  Claim C3: an emission with the fatal severity on an instance ends the process with
  exit status 1 after the writes asked for are done, whatever the three flags are, also
  when both sinks are off; it does not return. With the file sink off this holds on a
  nil instance too.
\<close>

theorem fatal_exits:
  "(\<exists>w'. printOutPut (Some l) needFileOutput needTerminalOutput colored MessageFatal jsonContent
       messageContent fileVisit termVisit w = Exits 1 w' \<and>
     files w' = (if needFileOutput
        then (files w)(logDestination l := files w (logDestination l) @
               messagePrefixOf (clock w (nowCalls w)) MessageFatal @ Sprint messageContent @
               dataText jsonContent fileVisit @ [newline])
        else files w) \<and>
     stdout w' = (if needTerminalOutput
        then stdout w @ (if colored then ColorRed else []) @
               messagePrefixOf (clock w (nowCalls w)) MessageFatal @ Sprint messageContent @
               dataText jsonContent termVisit @ (if colored then ColorDefault else []) @ [newline]
        else stdout w)) \<and>
   exitStatus (printOutPut logInstance False needTerminalOutput colored MessageFatal jsonContent
       messageContent fileVisit termVisit w) = Some 1"
  by (simp add: printOutPut_Some printOutPut_noFile finish_def Let_def terminalLine_def
      colorCodeOf_def MessageFatal_def MessageNormal_def)

theorem fatal_exits_witness:
  "exitStatus (printOutPut (Some sampleInstance) False True True MessageFatal None
      [VString ''disk '', VInt 7] [] [] sampleWorld) = Some 1 \<and>
   stdoutAfter (printOutPut (Some sampleInstance) False True True MessageFatal None
      [VString ''disk '', VInt 7] [] [] sampleWorld)
     = Some (CHR 0x1B # ''[31;1m2023-09-05 07:08:09:12:12345678 [ ERRO ] disk 7'' @
             CHR 0x1B # ''[0;0m'' @ [CHR 0x0A])"
proof -
  from fatal_exits [of sampleInstance False True True None "[VString ''disk '', VInt 7]" "[]" "[]"
      sampleWorld]
  obtain w' where e: "printOutPut (Some sampleInstance) False True True MessageFatal None
        [VString ''disk '', VInt 7] [] [] sampleWorld = Exits 1 w'"
    and o: "stdout w' = stdout sampleWorld @ ColorRed @
        messagePrefixOf (clock sampleWorld (nowCalls sampleWorld)) MessageFatal @
        Sprint [VString ''disk '', VInt 7] @ dataText None [] @ ColorDefault @ [newline]"
    by auto
  have p: "messagePrefixOf sampleTime MessageFatal = ''2023-09-05 07:08:09:12:12345678 [ ERRO ] ''"
    by (simp add: messagePrefixOf_def sampleTime_def Format_def appendInt_def Itoa_def
        digits_eval Nanosecond_def MessageFatal_def)
  have q: "Sprint [VString ''disk '', VInt 7] = ''disk 7''"
    by (simp add: Sprint_def Itoa_def digits_lt10)
  from e o show ?thesis
    by (simp add: stdoutAfter_def sampleWorld_def p q ColorRed_def ColorDefault_def ESC_def
        newline_def)
qed

text \<open>
  Claim C4: an emission to the terminal with colour writes the colour code of the
  severity, the prefix, the parts, the structured data if present, the reset code and a
  newline, where the code is \<open>ESC[0;0m\<close> for Normal, \<open>ESC[31;1m\<close> for Fatal and
  \<open>ESC[33;1m\<close> for Warning.
\<close>

theorem colored_terminal_line:
  "stdoutAfter (printOutPut (Some l) needFileOutput True True (tag S) jsonContent
       messageContent fileVisit termVisit w)
     = Some (stdout w @ specColor S @ messagePrefixOf (clock w (nowCalls w)) (tag S) @
             Sprint messageContent @ dataText jsonContent termVisit @
             (CHR 0x1B # ''[0;0m'') @ [CHR 0x0A])"
  by (simp add: printOutPut_Some stdoutAfter_def Let_def terminalLine_def colorCodeOf_tag
      ColorDefault_def ESC_def newline_def)


theorem colored_terminal_line_witness:
  "stdoutAfter (printOutPut (Some sampleInstance) True True True MessageWarning (Some sampleData)
       [VString ''low space''] [''x''] [''x''] sampleWorld)
     = Some (CHR 0x1B # ''[33;1m2023-09-05 07:08:09:12:12345678 [ WARN ] low space [ (x: 1) ]'' @
             CHR 0x1B # ''[0;0m'' @ [CHR 0x0A])"
  using colored_terminal_line [of sampleInstance True Warning "Some sampleData"
      "[VString ''low space'']" "[''x'']" "[''x'']" sampleWorld]
  by (simp add: sampleWorld_def messagePrefixOf_def sampleTime_def Format_def
      appendInt_def Itoa_def digits_eval Nanosecond_def MessageWarning_def dataText_sample)


text \<open>
  Claim C5, as stated: an emission to the terminal without colour writes none of the
  three escape sequences when the message parts and the structured data themselves
  contain none. Two string parts are printed with nothing between them, so two parts
  that each contain no escape sequence can spell one together: the parts \<open>ESC[31\<close> and
  \<open>;1m\<close> put the code for red on the terminal.
\<close>

theorem split_code_counterexample:
  "codeFree (printArg (VString (ESC # ''[31''))) \<and> codeFree (printArg (VString '';1m'')) \<and>
   stdoutAfter (printOutPut (Some sampleInstance) False True False MessageNormal None
       [VString (ESC # ''[31''), VString '';1m''] [] [] sampleWorld)
     = Some (stdout sampleWorld @ ''2023-09-05 07:08:09:12:12345678 [ INFO ] '' @ ColorRed @ [newline]) \<and>
   \<not> codeFree (''2023-09-05 07:08:09:12:12345678 [ INFO ] '' @ ColorRed @ [newline])"
proof (intro conjI)
  show "codeFree (printArg (VString (ESC # ''[31'')))"
    by (simp add: codeFree_def ColorDefault_def ColorRed_def ColorYellow_def ESC_def
        sublist_Cons_right)
  show "codeFree (printArg (VString '';1m''))"
    by (rule codeFree_no_ESC) (simp add: ESC_def)
  show "stdoutAfter (printOutPut (Some sampleInstance) False True False MessageNormal None
       [VString (ESC # ''[31''), VString '';1m''] [] [] sampleWorld)
     = Some (stdout sampleWorld @ ''2023-09-05 07:08:09:12:12345678 [ INFO ] '' @ ColorRed @ [newline])"
    by (simp add: printOutPut_Some stdoutAfter_def Let_def terminalLine_def sampleWorld_def
        messagePrefixOf_def sampleTime_def Format_def appendInt_def Nanosecond_def
        MessageNormal_def Itoa_def digits_eval ColorRed_def)
  show "\<not> codeFree (''2023-09-05 07:08:09:12:12345678 [ INFO ] '' @ ColorRed @ [newline])"
    unfolding codeFree_def by (simp del: append.simps)
qed

text \<open>
  Claim C5, amended: an emission to the terminal without colour writes none of the three
  escape sequences, for every severity, when the text printed for the message parts as a
  whole contains none and no key and no printed value of the structured data contains
  one.
\<close>

theorem uncolored_terminal_has_no_codes:
  assumes "codeFree (Sprint messageContent)"
    and "\<forall>jsonData k v. jsonContent = Some jsonData \<longrightarrow> jsonData k = Some v \<longrightarrow>
       codeFree k \<and> codeFree (printArg v)"
  shows "\<exists>out. stdoutAfter (printOutPut (Some l) needFileOutput True False (tag S) jsonContent
       messageContent fileVisit termVisit w) = Some (stdout w @ out) \<and> codeFree out"
proof -
  let ?out = "specPrefix (clock w (nowCalls w)) S @ Sprint messageContent @
    dataText jsonContent termVisit @ [newline]"
  have 1: "stdoutAfter (printOutPut (Some l) needFileOutput True False (tag S) jsonContent
       messageContent fileVisit termVisit w) = Some (stdout w @ ?out)"
    by (simp add: printOutPut_Some stdoutAfter_def Let_def terminalLine_def messagePrefixOf_tag)
  have 2: "\<not> sublist s ?out" if "isCode s" for s
  proof (rule no_code_in_line [OF that])
    show "\<not> sublist s (Sprint messageContent)"
      using assms(1) that by (simp add: codeFree_iff)
    show "\<forall>jsonData k v. jsonContent = Some jsonData \<longrightarrow> jsonData k = Some v \<longrightarrow>
       \<not> sublist s k \<and> \<not> sublist s (printArg v)"
      using assms(2) that by (simp add: codeFree_iff)
  qed
  then have "codeFree ?out" by (simp add: codeFree_iff)
  with 1 show ?thesis by blast
qed


theorem uncolored_terminal_has_no_codes_witness:
  "codeFree (Sprint [VString ''a'', VInt 1, VBool True]) \<and>
   (\<exists>out. stdoutAfter (printOutPut (Some sampleInstance) False True False MessageFatal
       (Some sampleData) [VString ''a'', VInt 1, VBool True] [''x''] [''x''] sampleWorld)
       = Some (stdout sampleWorld @ out) \<and> codeFree out)"
proof -
  have h1: "codeFree (Sprint [VString ''a'', VInt 1, VBool True])"
    by (rule codeFree_no_ESC) (simp add: sprint_a_1_true ESC_def)
  have h2: "\<forall>jsonData k v. Some sampleData = Some jsonData \<longrightarrow> jsonData k = Some v \<longrightarrow>
       codeFree k \<and> codeFree (printArg v)"
  proof (intro allI impI)
    fix jsonData k v
    assume "Some sampleData = Some jsonData" and "jsonData k = Some v"
    then have "k = ''x''" and "v = VInt 1"
      by (auto simp: sampleData_def split: if_splits)
    then show "codeFree k \<and> codeFree (printArg v)"
      by (auto intro!: codeFree_no_ESC simp: ESC_def Itoa_def digits_lt10)
  qed
  from uncolored_terminal_has_no_codes [OF h1 h2, where l = sampleInstance
      and needFileOutput = False and S = Fatal and fileVisit = "[''x'']" and termVisit = "[''x'']"
      and w = sampleWorld]
  have "\<exists>out. stdoutAfter (printOutPut (Some sampleInstance) False True False MessageFatal
       (Some sampleData) [VString ''a'', VInt 1, VBool True] [''x''] [''x''] sampleWorld)
       = Some (stdout sampleWorld @ out) \<and> codeFree out"
    by simp
  with h1 show ?thesis by blast
qed


text \<open>
  Claim C6: the structured data of the empty map is rendered as \<open> [ ]\<close>, that of the
  map from \<open>x\<close> to 1 as \<open> [ (x: 1) ]\<close>, and for every map the rendering is \<open> [\<close>,
  then one fragment \<open> (key: value)\<close> for every entry of the map, each entry once, in the
  order the range loop visits them, then \<open> ]\<close>; on the terminal and in the file alike.
\<close>

theorem structured_rendering:
  "generateJSON logInstance False True Map.empty visit w = Some (writeStdout '' [ ]'' w) \<and>
   generateJSON (Some l) True False Map.empty visit w
     = Some (writeFile (logDestination l) '' [ ]'' w) \<and>
   (rangeOrder [''x'' \<mapsto> VInt 1] visit \<longrightarrow>
      generateJSON logInstance False True [''x'' \<mapsto> VInt 1] visit w
        = Some (writeStdout '' [ (x: 1) ]'' w) \<and>
      generateJSON (Some l) True False [''x'' \<mapsto> VInt 1] visit w
        = Some (writeFile (logDestination l) '' [ (x: 1) ]'' w)) \<and>
   (rangeOrder jsonData visit \<longrightarrow>
      (\<exists>es. distinct es \<and> set es = Map.graph jsonData \<and>
         generateJSON logInstance False True jsonData visit w
           = Some (writeStdout ('' ['' @ concat (map fragment es) @ '' ]'') w) \<and>
         generateJSON (Some l) True False jsonData visit w
           = Some (writeFile (logDestination l) ('' ['' @ concat (map fragment es) @ '' ]'') w)))"
proof (intro conjI impI)
  have e: "rangeEntries Map.empty visit = []"
    by (induction visit) simp_all
  show "generateJSON logInstance False True Map.empty visit w = Some (writeStdout '' [ ]'' w)"
    by (simp add: generateJSON_terminal e renderStructured_def)
  show "generateJSON (Some l) True False Map.empty visit w
     = Some (writeFile (logDestination l) '' [ ]'' w)"
    by (simp add: generateJSON_file e renderStructured_def)
next
  assume "rangeOrder [''x'' \<mapsto> VInt 1] visit"
  then have v: "visit = [''x'']" by (rule rangeOrder_single)
  show "generateJSON logInstance False True [''x'' \<mapsto> VInt 1] visit w
        = Some (writeStdout '' [ (x: 1) ]'' w)"
    by (simp add: generateJSON_terminal v renderStructured_def fragment_def Itoa_def digits_lt10)
  show "generateJSON (Some l) True False [''x'' \<mapsto> VInt 1] visit w
        = Some (writeFile (logDestination l) '' [ (x: 1) ]'' w)"
    by (simp add: generateJSON_file v renderStructured_def fragment_def Itoa_def digits_lt10)
next
  assume r: "rangeOrder jsonData visit"
  show "\<exists>es. distinct es \<and> set es = Map.graph jsonData \<and>
         generateJSON logInstance False True jsonData visit w
           = Some (writeStdout ('' ['' @ concat (map fragment es) @ '' ]'') w) \<and>
         generateJSON (Some l) True False jsonData visit w
           = Some (writeFile (logDestination l) ('' ['' @ concat (map fragment es) @ '' ]'') w)"
  proof (intro exI conjI)
    show "distinct (rangeEntries jsonData visit)"
      using r by (rule rangeOrder_entries)
    show "set (rangeEntries jsonData visit) = Map.graph jsonData"
      using r by (rule rangeOrder_entries)
    show "generateJSON logInstance False True jsonData visit w
           = Some (writeStdout ('' ['' @ concat (map fragment (rangeEntries jsonData visit)) @ '' ]'') w)"
      by (simp add: generateJSON_terminal renderStructured_def)
    show "generateJSON (Some l) True False jsonData visit w
           = Some (writeFile (logDestination l)
               ('' ['' @ concat (map fragment (rangeEntries jsonData visit)) @ '' ]'') w)"
      by (simp add: generateJSON_file renderStructured_def)
  qed
qed


theorem structured_rendering_witness:
  "rangeOrder [''x'' \<mapsto> VInt 1] [''x''] \<and>
   generateJSON None False True [''x'' \<mapsto> VInt 1] [''x''] sampleWorld
     = Some (writeStdout '' [ (x: 1) ]'' sampleWorld) \<and>
   rangeOrder sampleData2 [''ok'', ''x''] \<and>
   (\<exists>es. distinct es \<and> set es = Map.graph sampleData2 \<and>
      generateJSON None False True sampleData2 [''ok'', ''x''] sampleWorld
        = Some (writeStdout ('' ['' @ concat (map fragment es) @ '' ]'') sampleWorld))"
proof -
  have r1: "rangeOrder [''x'' \<mapsto> VInt 1] [''x'']"
    by (simp add: rangeOrder_def)
  have r2: "rangeOrder sampleData2 [''ok'', ''x'']"
    by (auto simp: rangeOrder_def sampleData2_def)
  from r1 structured_rendering [of None "[''x'']" sampleWorld sampleInstance "[''x'' \<mapsto> VInt 1]"]
  have a: "generateJSON None False True [''x'' \<mapsto> VInt 1] [''x''] sampleWorld
     = Some (writeStdout '' [ (x: 1) ]'' sampleWorld)"
    by blast
  from r2 structured_rendering [of None "[''ok'', ''x'']" sampleWorld sampleInstance sampleData2]
  have b: "\<exists>es. distinct es \<and> set es = Map.graph sampleData2 \<and>
      generateJSON None False True sampleData2 [''ok'', ''x''] sampleWorld
        = Some (writeStdout ('' ['' @ concat (map fragment es) @ '' ]'') sampleWorld)"
    by blast
  from r1 a r2 b show ?thesis by blast
qed


text \<open>
  Claim C7: \<open>Initialize\<close> returns nil exactly when the file cannot be created, and an
  instance that holds the open file when it can.
\<close>

theorem initialize_nil_iff_create_fails:
  "(Initialize osCreate path = None \<longleftrightarrow> (\<exists>openError. osCreate path = Inl openError)) \<and>
   (\<forall>fileDescriptor. osCreate path = Inr fileDescriptor \<longrightarrow>
      Initialize osCreate path = Some \<lparr>logDestination = fileDescriptor\<rparr>)"
  by (cases "osCreate path") (simp_all add: Initialize_def)


theorem initialize_nil_iff_create_fails_witness:
  "Initialize sampleCreate ''/missing/app.log'' = None \<and>
   Initialize sampleCreate ''app.log'' = Some \<lparr>logDestination = 3\<rparr>"
  using initialize_nil_iff_create_fails [of sampleCreate "''/missing/app.log''"]
    initialize_nil_iff_create_fails [of sampleCreate "''app.log''"]
  by (simp add: sampleCreate_def)


text \<open>
  Claim C8: every emission reads the clock exactly once, whichever sinks are on, and
  every line it writes carries the prefix built from that one reading; when both sinks
  are on, the line in the file and the line on the terminal carry the same prefix. The
  first part is the case of both sinks, the second part is for all flags on an instance,
  the third for any instance, nil included, with the file sink off.
\<close>

theorem one_time_one_prefix:
  "(\<exists>w'. worldOf (printOutPut (Some l) True True colored messageType jsonContent
       messageContent fileVisit termVisit w) = Some w' \<and>
     nowCalls w' = Suc (nowCalls w) \<and>
     files w' (logDestination l) = files w (logDestination l) @
       messagePrefixOf (clock w (nowCalls w)) messageType @
       Sprint messageContent @ dataText jsonContent fileVisit @ [newline] \<and>
     stdout w' = stdout w @ (if colored then colorCodeOf messageType else []) @
       messagePrefixOf (clock w (nowCalls w)) messageType @
       Sprint messageContent @ dataText jsonContent termVisit @
       (if colored then ColorDefault else []) @ [newline]) \<and>
   (\<exists>w'. worldOf (printOutPut (Some l) needFileOutput needTerminalOutput colored messageType
       jsonContent messageContent fileVisit termVisit w) = Some w' \<and>
     nowCalls w' = Suc (nowCalls w) \<and> clock w' = clock w \<and>
     files w' = (if needFileOutput
        then (files w)(logDestination l := files w (logDestination l) @
               messagePrefixOf (clock w (nowCalls w)) messageType @
               Sprint messageContent @ dataText jsonContent fileVisit @ [newline])
        else files w) \<and>
     stdout w' = (if needTerminalOutput
        then stdout w @ (if colored then colorCodeOf messageType else []) @
               messagePrefixOf (clock w (nowCalls w)) messageType @
               Sprint messageContent @ dataText jsonContent termVisit @
               (if colored then ColorDefault else []) @ [newline]
        else stdout w)) \<and>
   (\<exists>w'. worldOf (printOutPut logInstance False needTerminalOutput colored messageType
       jsonContent messageContent fileVisit termVisit w) = Some w' \<and>
     nowCalls w' = Suc (nowCalls w) \<and> clock w' = clock w)"
proof (intro conjI)
  show "\<exists>w'. worldOf (printOutPut (Some l) True True colored messageType jsonContent
       messageContent fileVisit termVisit w) = Some w' \<and>
     nowCalls w' = Suc (nowCalls w) \<and>
     files w' (logDestination l) = files w (logDestination l) @
       messagePrefixOf (clock w (nowCalls w)) messageType @
       Sprint messageContent @ dataText jsonContent fileVisit @ [newline] \<and>
     stdout w' = stdout w @ (if colored then colorCodeOf messageType else []) @
       messagePrefixOf (clock w (nowCalls w)) messageType @
       Sprint messageContent @ dataText jsonContent termVisit @
       (if colored then ColorDefault else []) @ [newline]"
    by (simp add: printOutPut_Some Let_def terminalLine_def)
  show "\<exists>w'. worldOf (printOutPut (Some l) needFileOutput needTerminalOutput colored messageType
       jsonContent messageContent fileVisit termVisit w) = Some w' \<and>
     nowCalls w' = Suc (nowCalls w) \<and> clock w' = clock w \<and>
     files w' = (if needFileOutput
        then (files w)(logDestination l := files w (logDestination l) @
               messagePrefixOf (clock w (nowCalls w)) messageType @
               Sprint messageContent @ dataText jsonContent fileVisit @ [newline])
        else files w) \<and>
     stdout w' = (if needTerminalOutput
        then stdout w @ (if colored then colorCodeOf messageType else []) @
               messagePrefixOf (clock w (nowCalls w)) messageType @
               Sprint messageContent @ dataText jsonContent termVisit @
               (if colored then ColorDefault else []) @ [newline]
        else stdout w)"
    by (simp add: printOutPut_Some Let_def terminalLine_def writeFile_def writeStdout_def)
  show "\<exists>w'. worldOf (printOutPut logInstance False needTerminalOutput colored messageType
       jsonContent messageContent fileVisit termVisit w) = Some w' \<and>
     nowCalls w' = Suc (nowCalls w) \<and> clock w' = clock w"
    by (simp add: printOutPut_noFile Let_def writeStdout_def)
qed

theorem one_time_one_prefix_witness:
  "(\<exists>w'. worldOf (printOutPut (Some sampleInstance) True True False MessageNormal None
       [VString ''up''] [] [] sampleWorld) = Some w' \<and>
     nowCalls w' = 1 \<and>
     files w' 3 = ''2023-09-05 07:08:09:12:12345678 [ INFO ] up'' @ [CHR 0x0A] \<and>
     stdout w' = ''2023-09-05 07:08:09:12:12345678 [ INFO ] up'' @ [CHR 0x0A]) \<and>
   (\<exists>w'. worldOf (printOutPut (Some sampleInstance) True False False MessageNormal None
       [VString ''up''] [] [] sampleWorld) = Some w' \<and>
     nowCalls w' = 1 \<and>
     files w' 3 = ''2023-09-05 07:08:09:12:12345678 [ INFO ] up'' @ [CHR 0x0A] \<and>
     stdout w' = []) \<and>
   (\<exists>w'. worldOf (printOutPut None False False False MessageNormal None
       [VString ''up''] [] [] sampleWorld) = Some w' \<and> nowCalls w' = 1)"
proof -
  have p: "messagePrefixOf sampleTime MessageNormal = ''2023-09-05 07:08:09:12:12345678 [ INFO ] ''"
    by (simp add: messagePrefixOf_def sampleTime_def Format_def appendInt_def Itoa_def
        digits_eval Nanosecond_def MessageNormal_def)
  note t = one_time_one_prefix [where l = sampleInstance and colored = False
      and messageType = MessageNormal and jsonContent = None
      and messageContent = "[VString ''up'']" and fileVisit = "[]" and termVisit = "[]"
      and w = sampleWorld and needFileOutput = True and needTerminalOutput = False
      and logInstance = None]
  from t have a: "\<exists>w'. worldOf (printOutPut (Some sampleInstance) True True False MessageNormal
       None [VString ''up''] [] [] sampleWorld) = Some w' \<and>
     nowCalls w' = 1 \<and>
     files w' 3 = ''2023-09-05 07:08:09:12:12345678 [ INFO ] up'' @ [CHR 0x0A] \<and>
     stdout w' = ''2023-09-05 07:08:09:12:12345678 [ INFO ] up'' @ [CHR 0x0A]"
    by (simp add: sampleWorld_def sampleInstance_def p newline_def)
  from t obtain w1 where w1: "worldOf (printOutPut (Some sampleInstance) True False False
         MessageNormal None [VString ''up''] [] [] sampleWorld) = Some w1"
      "nowCalls w1 = Suc (nowCalls sampleWorld)"
      "files w1 = (files sampleWorld)(logDestination sampleInstance :=
         files sampleWorld (logDestination sampleInstance) @
         messagePrefixOf (clock sampleWorld (nowCalls sampleWorld)) MessageNormal @
         Sprint [VString ''up''] @ dataText None [] @ [newline])"
      "stdout w1 = stdout sampleWorld"
    by auto
  have b: "\<exists>w'. worldOf (printOutPut (Some sampleInstance) True False False MessageNormal
       None [VString ''up''] [] [] sampleWorld) = Some w' \<and>
     nowCalls w' = 1 \<and>
     files w' 3 = ''2023-09-05 07:08:09:12:12345678 [ INFO ] up'' @ [CHR 0x0A] \<and>
     stdout w' = []"
  proof (intro exI conjI)
    show "worldOf (printOutPut (Some sampleInstance) True False False MessageNormal
       None [VString ''up''] [] [] sampleWorld) = Some w1"
      by (rule w1)
    show "nowCalls w1 = 1"
      using w1(2) by (simp add: sampleWorld_def)
    show "files w1 3 = ''2023-09-05 07:08:09:12:12345678 [ INFO ] up'' @ [CHR 0x0A]"
      using w1(3) by (simp add: sampleWorld_def sampleInstance_def p newline_def)
    show "stdout w1 = []"
      using w1(4) by (simp add: sampleWorld_def)
  qed
  from t have c: "\<exists>w'. worldOf (printOutPut None False False False MessageNormal None
       [VString ''up''] [] [] sampleWorld) = Some w' \<and> nowCalls w' = 1"
    by (auto simp: sampleWorld_def)
  from a b c show ?thesis by blast
qed


text \<open>
  Claim C9: when the message type is none of the three tag constants, a coloured
  emission to the terminal writes no colour code before the prefix, and still writes the
  reset code \<open>ESC[0;0m\<close> at the end of the line, before the newline.
\<close>

theorem unknown_type_no_color_but_reset:
  "messageType \<noteq> MessageNormal \<Longrightarrow> messageType \<noteq> MessageFatal \<Longrightarrow>
   messageType \<noteq> MessageWarning \<Longrightarrow>
   colorCodeOf messageType = [] \<and>
   stdoutAfter (printOutPut (Some l) needFileOutput True True messageType jsonContent
       messageContent fileVisit termVisit w)
     = Some (stdout w @ messagePrefixOf (clock w (nowCalls w)) messageType @
             Sprint messageContent @ dataText jsonContent termVisit @
             (CHR 0x1B # ''[0;0m'') @ [CHR 0x0A])"
  by (simp add: printOutPut_Some stdoutAfter_def Let_def terminalLine_def colorCodeOf_def
      ColorDefault_def ESC_def newline_def)


theorem unknown_type_no_color_but_reset_witness:
  "'' [ DEBG ] '' \<noteq> MessageNormal \<and> '' [ DEBG ] '' \<noteq> MessageFatal \<and>
   '' [ DEBG ] '' \<noteq> MessageWarning \<and>
   stdoutAfter (printOutPut (Some sampleInstance) False True True '' [ DEBG ] '' None
       [VString ''probe''] [] [] sampleWorld)
     = Some (''2023-09-05 07:08:09:12:12345678 [ DEBG ] probe'' @ CHR 0x1B # ''[0;0m'' @ [CHR 0x0A])"
proof -
  have h: "'' [ DEBG ] '' \<noteq> MessageNormal" "'' [ DEBG ] '' \<noteq> MessageFatal"
    "'' [ DEBG ] '' \<noteq> MessageWarning"
    by (simp_all add: MessageNormal_def MessageFatal_def MessageWarning_def)
  show ?thesis
    using h unknown_type_no_color_but_reset [OF h, where l = sampleInstance
        and needFileOutput = False and jsonContent = None
        and messageContent = "[VString ''probe'']" and fileVisit = "[]" and termVisit = "[]"
        and w = sampleWorld]
    by (simp add: sampleWorld_def messagePrefixOf_def sampleTime_def Format_def
        appendInt_def Itoa_def digits_eval Nanosecond_def)
qed


text \<open>
  Claim C10: an emission that is not asked to write to the file leaves every file as it
  was, whatever the other arguments are, also on a nil instance; and so does
  \<open>generateJSON\<close> when it is not asked to write to the file.
\<close>

theorem no_file_output_keeps_files:
  "(\<exists>w'. worldOf (printOutPut logInstance False needTerminalOutput colored messageType
        jsonContent messageContent fileVisit termVisit w) = Some w' \<and> files w' = files w) \<and>
   (\<exists>w'. generateJSON logInstance False needTerminalOutput jsonData visit w = Some w' \<and>
        files w' = files w)"
proof
  show "\<exists>w'. worldOf (printOutPut logInstance False needTerminalOutput colored messageType
        jsonContent messageContent fileVisit termVisit w) = Some w' \<and> files w' = files w"
    by (simp add: printOutPut_noFile Let_def)
  show "\<exists>w'. generateJSON logInstance False needTerminalOutput jsonData visit w = Some w' \<and>
        files w' = files w"
    by (simp add: generateJSON_def rangeLoop_no_file Print_def)
qed


theorem no_file_output_keeps_files_witness:
  "\<exists>w'. worldOf (printOutPut None False True True MessageWarning (Some sampleData)
        [VString ''a'', VInt 1, VBool True] [''x''] [''x''] sampleWorld) = Some w' \<and>
      files w' = files sampleWorld \<and> stdout w' \<noteq> stdout sampleWorld"
  using no_file_output_keeps_files [of None True True MessageWarning "Some sampleData"
      "[VString ''a'', VInt 1, VBool True]" "[''x'']" "[''x'']" sampleWorld sampleData "[''x'']"]
  by (auto simp: printOutPut_noFile Let_def sampleWorld_def terminalLine_def newline_def)


end
